theory Spec2Isabelle
  imports Main
begin

section \<open>The monitoring operator of pkg/models/observability/monitoring\<close>

text \<open>
  The operator of \<^verbatim>\<open>monitoring.go\<close> forwards metric queries to a monitoring backend and
  counts cluster and workspace entities through list operations. Everything it calls lives
  outside the file: the backend client, the listers, the clock, the logger and the registry
  of namespace rewrite functions. The embedding therefore threads an arbitrary world
  \<open>'w\<close> through every such call: a call takes the world and returns its result together
  with the world it leaves behind. Nothing is assumed about the world, so a statement of the
  form "the world after the call is \<open>klog_Error g err w\<close>" says that logging was the only
  effect performed.
\<close>

subsection \<open>Values\<close>

text \<open>A Go \<^verbatim>\<open>error\<close> value; the code reads it only through \<^verbatim>\<open>err.Error()\<close>.\<close>

datatype error = errors_New string

fun error_Error :: "error \<Rightarrow> string" where
  "error_Error (errors_New msg) = msg"

text \<open>
  The one runtime panic the file can raise by itself: calling the nil function that a Go map
  of functions yields for a key it does not hold.
\<close>

datatype panic = nil_func_call

text \<open>\<^verbatim>\<open>time.Time\<close> and \<^verbatim>\<open>time.Duration\<close> are only handed on to the backend.\<close>

type_synonym Time = int
type_synonym Duration = int

text \<open>
  \<^verbatim>\<open>monitoring.Metric\<close> with the fields the file writes. \<open>'f\<close> is \<^verbatim>\<open>float64\<close>: the
  conversion from integers is a parameter of the model and nothing is assumed about it.
  \<^verbatim>\<open>Point\<close> is \<^verbatim>\<open>[2]float64\<close>, \<^verbatim>\<open>Sample\<close> a pointer to one (\<open>None\<close> is nil), and a
  nil slice is the empty list.
\<close>

type_synonym 'f Point = "'f \<times> 'f"

record 'f MetricValue =
  Sample :: "'f Point option"

record 'f MetricData =
  MetricType :: string
  MetricValues :: "'f MetricValue list"

record 'f Metric =
  MetricName :: string
  MetricData :: "'f MetricData"
  Error :: string

record 'f Metrics =
  Results :: "'f Metric list"

record MetricLabelSet =
  Data :: "(string \<rightharpoonup> string) list"

subsection \<open>Label selectors and listed objects\<close>

text \<open>
  The selectors of \<^verbatim>\<open>k8s.io/apimachinery/pkg/labels\<close> are kept as the code builds them:
  one constructor for each library call of the file. What a selector selects is decided by
  the lister that receives it. \<^verbatim>\<open>labels.NewRequirement\<close> also returns an error, which the
  file discards; it is nil for the operator \<^verbatim>\<open>Exists\<close> without values on the constant
  key the file passes.
\<close>

datatype Operator = selection_Equals | selection_Exists

datatype Requirement = NewRequirement string Operator "string list"

datatype Selector =
    Everything
  | SelectorFromSet "(string \<times> string) list"
  | Selector_Add Selector Requirement

definition DeepCopySelector :: "Selector \<Rightarrow> Selector" where
  "DeepCopySelector s = s"

record ListOptions =
  LabelSelector :: string

text \<open>A listed object: the code reads nothing of it, only the length of the list.\<close>

record Object =
  Name :: string
  Labels :: "(string \<times> string) list"

subsection \<open>The collaborators\<close>

text \<open>
  \<^verbatim>\<open>monitoring.Interface\<close>, the methods of the injected client that the modelled
  operations call. \<open>'o\<close> is \<^verbatim>\<open>monitoring.QueryOption\<close>.
\<close>

record ('w, 'f, 'o) Interface =
  GetMetric :: "string \<Rightarrow> Time \<Rightarrow> 'w \<Rightarrow> 'f Metric \<times> 'w"
  GetMetricOverTime :: "string \<Rightarrow> Time \<Rightarrow> Time \<Rightarrow> Duration \<Rightarrow> 'w \<Rightarrow> 'f Metric \<times> 'w"
  GetNamedMetrics :: "string list \<Rightarrow> Time \<Rightarrow> 'o \<Rightarrow> 'w \<Rightarrow> 'f Metric list \<times> 'w"
  GetNamedMetricsOverTime ::
    "string list \<Rightarrow> Time \<Rightarrow> Time \<Rightarrow> Duration \<Rightarrow> 'o \<Rightarrow> 'w \<Rightarrow> 'f Metric list \<times> 'w"
  GetMetricLabelSet :: "string \<Rightarrow> Time \<Rightarrow> Time \<Rightarrow> 'w \<Rightarrow> (string \<rightharpoonup> string) list \<times> 'w"

text \<open>
  A Go list operation returns a list and an error, and both may be set. The namespace list of
  \<^verbatim>\<open>mo.k8s\<close> returns a \<^verbatim>\<open>NamespaceList\<close>, of which the code reads \<^verbatim>\<open>Items\<close>.
\<close>

type_synonym 'w list_result = "(Object list \<times> error option) \<times> 'w"

record 'w kubernetes_Interface =
  Namespaces_List :: "ListOptions \<Rightarrow> 'w \<Rightarrow> 'w list_result"

record 'w SharedInformerFactory =
  Clusters_List :: "Selector \<Rightarrow> 'w \<Rightarrow> 'w list_result"
  WorkspaceTemplates_List :: "Selector \<Rightarrow> 'w \<Rightarrow> 'w list_result"
  Users_List :: "Selector \<Rightarrow> 'w \<Rightarrow> 'w list_result"
  DevOpsProjects_List :: "Selector \<Rightarrow> 'w \<Rightarrow> 'w list_result"
  WorkspaceRoleBindings_List :: "Selector \<Rightarrow> 'w \<Rightarrow> 'w list_result"
  WorkspaceRoles_List :: "Selector \<Rightarrow> 'w \<Rightarrow> 'w list_result"

record ('w, 'f, 'o) monitoringOperator =
  prometheus :: "('w, 'f, 'o) Interface"
  k8s :: "'w kubernetes_Interface"
  ks :: "'w SharedInformerFactory"

text \<open>
  What the file takes from its package and its imports and does not define itself: the
  conversion \<^verbatim>\<open>float64\<close>, the clock \<^verbatim>\<open>time.Now().Unix()\<close>, \<^verbatim>\<open>klog.Error\<close>,
  \<^verbatim>\<open>Selector.String\<close>, the registry \<^verbatim>\<open>expressions.ReplaceNamespaceFns\<close> and the string
  constants. The registry is a Go map from backend kind to rewrite function: \<open>None\<close> stands
  for a key that is missing (or bound to nil), for which indexing yields the nil function. A
  rewrite function has the Go type \<^verbatim>\<open>func(expr, ns string) (string, error)\<close> and is taken
  as a function of its two strings.
\<close>

type_synonym ReplaceNamespaceFn = "string \<Rightarrow> string \<Rightarrow> string \<times> error option"

record ('w, 'f) env =
  float64 :: "int \<Rightarrow> 'f"
  time_Now_Unix :: "'w \<Rightarrow> int"
  klog_Error :: "error \<Rightarrow> 'w \<Rightarrow> 'w"
  Selector_String :: "Selector \<Rightarrow> string"
  ReplaceNamespaceFns :: "string \<rightharpoonup> ReplaceNamespaceFn"
  MetricTypeVector :: string
  KubeSphereClusterCount :: string
  KubeSphereWorkspaceCount :: string
  KubeSphereUserCount :: string
  WorkspaceNamespaceCount :: string
  WorkspaceDevopsCount :: string
  WorkspaceMemberCount :: string
  WorkspaceRoleCount :: string
  WorkspaceLabelKey :: string
  UserReferenceLabel :: string

subsection \<open>The query operations\<close>

definition GetMetric ::
  "('w, 'f, 'o) monitoringOperator \<Rightarrow> string \<Rightarrow> string \<Rightarrow> Time \<Rightarrow> 'w
    \<Rightarrow> ('f Metric \<times> error option) \<times> 'w" where
  "GetMetric mo expr namespace time w =
     (let (m, w') = Interface.GetMetric (prometheus mo) expr time w in ((m, None), w'))"

definition GetMetricOverTime ::
  "('w, 'f, 'o) monitoringOperator \<Rightarrow> string \<Rightarrow> string \<Rightarrow> Time \<Rightarrow> Time \<Rightarrow> Duration \<Rightarrow> 'w
    \<Rightarrow> ('f Metric \<times> error option) \<times> 'w" where
  "GetMetricOverTime mo expr namespace start endt step w =
     (let (m, w') = Interface.GetMetricOverTime (prometheus mo) expr start endt step w
      in ((m, None), w'))"

definition GetNamedMetrics ::
  "('w, 'f, 'o) monitoringOperator \<Rightarrow> string list \<Rightarrow> Time \<Rightarrow> 'o \<Rightarrow> 'w \<Rightarrow> 'f Metrics \<times> 'w" where
  "GetNamedMetrics mo metrics time opt w =
     (let (ress, w') = Interface.GetNamedMetrics (prometheus mo) metrics time opt w
      in (\<lparr>Results = ress\<rparr>, w'))"

definition GetNamedMetricsOverTime ::
  "('w, 'f, 'o) monitoringOperator \<Rightarrow> string list \<Rightarrow> Time \<Rightarrow> Time \<Rightarrow> Duration \<Rightarrow> 'o \<Rightarrow> 'w
    \<Rightarrow> 'f Metrics \<times> 'w" where
  "GetNamedMetricsOverTime mo metrics start endt step opt w =
     (let (ress, w') =
        Interface.GetNamedMetricsOverTime (prometheus mo) metrics start endt step opt w
      in (\<lparr>Results = ress\<rparr>, w'))"

text \<open>
  \<^verbatim>\<open>GetMetricLabelSet\<close> indexes the registry with the hard-coded kind and calls what it
  finds. A missing entry is the nil function, and calling it panics before anything else
  happens.
\<close>

definition GetMetricLabelSet ::
  "('w, 'f) env \<Rightarrow> ('w, 'f, 'o) monitoringOperator \<Rightarrow> string \<Rightarrow> string \<Rightarrow> Time \<Rightarrow> Time \<Rightarrow> 'w
    \<Rightarrow> (panic + MetricLabelSet) \<times> 'w" where
  "GetMetricLabelSet g mo metric namespace start endt w =
     (let expr = metric;
          lookup = (\<lambda>expr.
            let (data, w') = Interface.GetMetricLabelSet (prometheus mo) expr start endt w
            in (Inr \<lparr>Data = data\<rparr>, w'))
      in if namespace \<noteq> '''' then
           (case ReplaceNamespaceFns g ''prometheus'' of
              None \<Rightarrow> (Inl nil_func_call, w)
            | Some fn \<Rightarrow>
                (case fn metric namespace of
                   (expr, Some err) \<Rightarrow> (Inr \<lparr>Data = []\<rparr>, klog_Error g err w)
                 | (expr, None) \<Rightarrow> lookup expr))
         else lookup expr)"

subsection \<open>The entity counts\<close>

text \<open>
  Both operations read the clock once, then run their list operations one after the other
  and append one element for each. \<^verbatim>\<open>len\<close> of the cluster list is taken, and raised
  from 0 to 1, before the error of that list operation is looked at.
\<close>

definition GetKubeSphereStats ::
  "('w, 'f) env \<Rightarrow> ('w, 'f, 'o) monitoringOperator \<Rightarrow> 'w \<Rightarrow> 'f Metrics \<times> 'w" where
  "GetKubeSphereStats g mo w0 =
     (let res = \<lparr>Results = []\<rparr>;
          now = float64 g (time_Now_Unix g w0);

          ((clusterList, err), w1) = Clusters_List (ks mo) Everything w0;
          clusterTotal = int (length clusterList);
          clusterTotal = (if clusterTotal = 0 then 1 else clusterTotal);
          res = (case err of
              Some e \<Rightarrow> res\<lparr>Results := Results res @ [\<lparr>
                MetricName = KubeSphereClusterCount g,
                MetricData = \<lparr>MetricType = '''', MetricValues = []\<rparr>,
                Error = error_Error e\<rparr>]\<rparr>
            | None \<Rightarrow> res\<lparr>Results := Results res @ [\<lparr>
                MetricName = KubeSphereClusterCount g,
                MetricData = \<lparr>MetricType = MetricTypeVector g,
                  MetricValues = [\<lparr>Sample = Some (now, float64 g clusterTotal)\<rparr>]\<rparr>,
                Error = ''''\<rparr>]\<rparr>);

          ((wkList, err), w2) = WorkspaceTemplates_List (ks mo) Everything w1;
          res = (case err of
              Some e \<Rightarrow> res\<lparr>Results := Results res @ [\<lparr>
                MetricName = KubeSphereWorkspaceCount g,
                MetricData = \<lparr>MetricType = '''', MetricValues = []\<rparr>,
                Error = error_Error e\<rparr>]\<rparr>
            | None \<Rightarrow> res\<lparr>Results := Results res @ [\<lparr>
                MetricName = KubeSphereWorkspaceCount g,
                MetricData = \<lparr>MetricType = MetricTypeVector g,
                  MetricValues = [\<lparr>Sample = Some (now, float64 g (int (length wkList)))\<rparr>]\<rparr>,
                Error = ''''\<rparr>]\<rparr>);

          ((usrList, err), w3) = Users_List (ks mo) Everything w2;
          res = (case err of
              Some e \<Rightarrow> res\<lparr>Results := Results res @ [\<lparr>
                MetricName = KubeSphereUserCount g,
                MetricData = \<lparr>MetricType = '''', MetricValues = []\<rparr>,
                Error = error_Error e\<rparr>]\<rparr>
            | None \<Rightarrow> res\<lparr>Results := Results res @ [\<lparr>
                MetricName = KubeSphereUserCount g,
                MetricData = \<lparr>MetricType = MetricTypeVector g,
                  MetricValues = [\<lparr>Sample = Some (now, float64 g (int (length usrList)))\<rparr>]\<rparr>,
                Error = ''''\<rparr>]\<rparr>)
      in (res, w3))"

definition GetWorkspaceStats ::
  "('w, 'f) env \<Rightarrow> ('w, 'f, 'o) monitoringOperator \<Rightarrow> string \<Rightarrow> 'w \<Rightarrow> 'f Metrics \<times> 'w" where
  "GetWorkspaceStats g mo workspace w0 =
     (let res = \<lparr>Results = []\<rparr>;
          now = float64 g (time_Now_Unix g w0);

          selector = SelectorFromSet [(WorkspaceLabelKey g, workspace)];
          opt = \<lparr>LabelSelector = Selector_String g selector\<rparr>;

          ((nsList, err), w1) = Namespaces_List (k8s mo) opt w0;
          res = (case err of
              Some e \<Rightarrow> res\<lparr>Results := Results res @ [\<lparr>
                MetricName = WorkspaceNamespaceCount g,
                MetricData = \<lparr>MetricType = '''', MetricValues = []\<rparr>,
                Error = error_Error e\<rparr>]\<rparr>
            | None \<Rightarrow> res\<lparr>Results := Results res @ [\<lparr>
                MetricName = WorkspaceNamespaceCount g,
                MetricData = \<lparr>MetricType = MetricTypeVector g,
                  MetricValues = [\<lparr>Sample = Some (now, float64 g (int (length nsList)))\<rparr>]\<rparr>,
                Error = ''''\<rparr>]\<rparr>);

          ((devopsList, err), w2) = DevOpsProjects_List (ks mo) selector w1;
          res = (case err of
              Some e \<Rightarrow> res\<lparr>Results := Results res @ [\<lparr>
                MetricName = WorkspaceDevopsCount g,
                MetricData = \<lparr>MetricType = '''', MetricValues = []\<rparr>,
                Error = error_Error e\<rparr>]\<rparr>
            | None \<Rightarrow> res\<lparr>Results := Results res @ [\<lparr>
                MetricName = WorkspaceDevopsCount g,
                MetricData = \<lparr>MetricType = MetricTypeVector g,
                  MetricValues = [\<lparr>Sample = Some (now, float64 g (int (length devopsList)))\<rparr>]\<rparr>,
                Error = ''''\<rparr>]\<rparr>);

          r = NewRequirement (UserReferenceLabel g) selection_Exists [];
          memberSelector = Selector_Add (DeepCopySelector selector) r;
          ((memberList, err), w3) = WorkspaceRoleBindings_List (ks mo) memberSelector w2;
          res = (case err of
              Some e \<Rightarrow> res\<lparr>Results := Results res @ [\<lparr>
                MetricName = WorkspaceMemberCount g,
                MetricData = \<lparr>MetricType = '''', MetricValues = []\<rparr>,
                Error = error_Error e\<rparr>]\<rparr>
            | None \<Rightarrow> res\<lparr>Results := Results res @ [\<lparr>
                MetricName = WorkspaceMemberCount g,
                MetricData = \<lparr>MetricType = MetricTypeVector g,
                  MetricValues = [\<lparr>Sample = Some (now, float64 g (int (length memberList)))\<rparr>]\<rparr>,
                Error = ''''\<rparr>]\<rparr>);

          ((roleList, err), w4) = WorkspaceRoles_List (ks mo) selector w3;
          res = (case err of
              Some e \<Rightarrow> res\<lparr>Results := Results res @ [\<lparr>
                MetricName = WorkspaceRoleCount g,
                MetricData = \<lparr>MetricType = '''', MetricValues = []\<rparr>,
                Error = error_Error e\<rparr>]\<rparr>
            | None \<Rightarrow> res\<lparr>Results := Results res @ [\<lparr>
                MetricName = WorkspaceRoleCount g,
                MetricData = \<lparr>MetricType = MetricTypeVector g,
                  MetricValues = [\<lparr>Sample = Some (now, float64 g (int (length roleList)))\<rparr>]\<rparr>,
                Error = ''''\<rparr>]\<rparr>)
      in (res, w4))"

subsection \<open>Vocabulary of the statements\<close>

text \<open>
  The two shapes of element the entity counts emit: an error element, which carries the
  message and no sample, and a count element, which carries one sample, the pair of the
  timestamp and the converted count.
\<close>

definition error_element :: "string \<Rightarrow> error \<Rightarrow> 'f Metric" where
  "error_element name e =
     \<lparr>MetricName = name, MetricData = \<lparr>MetricType = '''', MetricValues = []\<rparr>,
      Error = error_Error e\<rparr>"

definition count_element :: "('w, 'f) env \<Rightarrow> string \<Rightarrow> int \<Rightarrow> int \<Rightarrow> 'f Metric" where
  "count_element g name ts n =
     \<lparr>MetricName = name,
      MetricData = \<lparr>MetricType = MetricTypeVector g,
        MetricValues = [\<lparr>Sample = Some (float64 g ts, float64 g n)\<rparr>]\<rparr>,
      Error = ''''\<rparr>"

text \<open>The element owed to one entity kind, given the outcome of its list operation.\<close>

definition entity_element ::
  "('w, 'f) env \<Rightarrow> string \<Rightarrow> int \<Rightarrow> error option \<Rightarrow> int \<Rightarrow> 'f Metric" where
  "entity_element g name ts err n =
     (case err of Some e \<Rightarrow> error_element name e | None \<Rightarrow> count_element g name ts n)"

text \<open>The selector of a workspace, and the selector of its role bindings with a user.\<close>

definition workspace_selector :: "('w, 'f) env \<Rightarrow> string \<Rightarrow> Selector" where
  "workspace_selector g workspace = SelectorFromSet [(WorkspaceLabelKey g, workspace)]"

definition member_selector :: "('w, 'f) env \<Rightarrow> string \<Rightarrow> Selector" where
  "member_selector g workspace =
     Selector_Add (workspace_selector g workspace)
       (NewRequirement (UserReferenceLabel g) selection_Exists [])"

text \<open>
  Modelled from the spec: the batched named-metric query of the monitoring backend, whose
  implementation is not among the sources. The specification describes it as a batch of
  named lookups that keeps the order of the request and isolates errors per name: one lookup
  for each name, in the order of the names, each giving one element.
\<close>

fun named_lookups ::
  "(string \<Rightarrow> 'w \<Rightarrow> 'f Metric \<times> 'w) \<Rightarrow> string list \<Rightarrow> 'w \<Rightarrow> 'f Metric list \<times> 'w" where
  "named_lookups q [] w = ([], w)"
| "named_lookups q (m # ms) w =
     (let (r, w1) = q m w; (rs, w2) = named_lookups q ms w1 in (r # rs, w2))"

text \<open>
  Stated from the specification's words, for comparison with what the code counts: the
  distinct members of a collection of role bindings, a member being the user that the
  user-reference label of a binding names.
\<close>

definition spec_distinct_members :: "string \<Rightarrow> Object list \<Rightarrow> nat" where
  "spec_distinct_members userRef bindings =
     length (remdups (map (\<lambda>b. map_of (Labels b) userRef) bindings))"

subsection \<open>A concrete world\<close>

text \<open>
  A world that records what is done to it: the trace of the effects, oldest first. Its clock
  advances by one second with every effect. The listers answer from fixed collections and
  select by the labels of the objects, as the selectors of the library are documented to.
\<close>

datatype event = Logged error | Queried string | Listed string

type_synonym trace = "event list"

definition demo_clock :: "trace \<Rightarrow> int" where
  "demo_clock w = 1700000000 + int (length w)"

fun Requirement_Matches :: "Requirement \<Rightarrow> (string \<times> string) list \<Rightarrow> bool" where
  "Requirement_Matches (NewRequirement key selection_Equals vals) ls =
     (case map_of ls key of None \<Rightarrow> False | Some v \<Rightarrow> v \<in> set vals)"
| "Requirement_Matches (NewRequirement key selection_Exists vals) ls =
     (case map_of ls key of None \<Rightarrow> False | Some v \<Rightarrow> True)"

fun Selector_Matches :: "Selector \<Rightarrow> (string \<times> string) list \<Rightarrow> bool" where
  "Selector_Matches Everything ls = True"
| "Selector_Matches (SelectorFromSet kvs) ls = list_all (\<lambda>(k, v). map_of ls k = Some v) kvs"
| "Selector_Matches (Selector_Add s r) ls = (Selector_Matches s ls \<and> Requirement_Matches r ls)"

fun demo_String :: "Selector \<Rightarrow> string" where
  "demo_String (SelectorFromSet [(k, v)]) = k @ ''='' @ v"
| "demo_String s = ''''"

definition demo_list :: "string \<Rightarrow> Object list \<times> error option \<Rightarrow> Selector \<Rightarrow> trace \<Rightarrow> trace list_result" where
  "demo_list kind store sel w =
     ((filter (\<lambda>ob. Selector_Matches sel (Labels ob)) (fst store), snd store), w @ [Listed kind])"

definition demo_list_opt :: "string \<Rightarrow> Object list \<times> error option \<Rightarrow> ListOptions \<Rightarrow> trace \<Rightarrow> trace list_result" where
  "demo_list_opt kind store opt w =
     ((filter (\<lambda>ob. list_ex (\<lambda>(k, v). LabelSelector opt = k @ ''='' @ v) (Labels ob)) (fst store),
       snd store), w @ [Listed kind])"

definition demo_query :: "string \<Rightarrow> trace \<Rightarrow> int Metric \<times> trace" where
  "demo_query m w =
     (\<lparr>MetricName = m, MetricData = \<lparr>MetricType = '''', MetricValues = []\<rparr>,
       Error = (if m = ''bad'' then ''unknown metric'' else '''')\<rparr>, w @ [Queried m])"

definition demo_prometheus :: "(trace, int, unit) Interface" where
  "demo_prometheus =
     \<lparr>Interface.GetMetric = (\<lambda>expr t. demo_query expr),
      Interface.GetMetricOverTime = (\<lambda>expr s e st. demo_query expr),
      Interface.GetNamedMetrics = (\<lambda>ms t opt. named_lookups demo_query ms),
      Interface.GetNamedMetricsOverTime = (\<lambda>ms s e st opt. named_lookups demo_query ms),
      Interface.GetMetricLabelSet = (\<lambda>expr s e w. ([[''__name__'' \<mapsto> expr]], w @ [Queried expr]))\<rparr>"

record stores =
  clusters :: "Object list \<times> error option"
  templates :: "Object list \<times> error option"
  users :: "Object list \<times> error option"
  namespaces :: "Object list \<times> error option"
  devops :: "Object list \<times> error option"
  bindings :: "Object list \<times> error option"
  roles :: "Object list \<times> error option"

definition demo_mo :: "stores \<Rightarrow> (trace, int, unit) monitoringOperator" where
  "demo_mo st =
     \<lparr>prometheus = demo_prometheus,
      k8s = \<lparr>Namespaces_List = demo_list_opt ''namespaces'' (namespaces st)\<rparr>,
      ks = \<lparr>Clusters_List = demo_list ''clusters'' (clusters st),
            WorkspaceTemplates_List = demo_list ''workspacetemplates'' (templates st),
            Users_List = demo_list ''users'' (users st),
            DevOpsProjects_List = demo_list ''devopsprojects'' (devops st),
            WorkspaceRoleBindings_List = demo_list ''workspacerolebindings'' (bindings st),
            WorkspaceRoles_List = demo_list ''workspaceroles'' (roles st)\<rparr>\<rparr>"

definition demo_env :: "(string \<rightharpoonup> ReplaceNamespaceFn) \<Rightarrow> (trace, int) env" where
  "demo_env fns =
     \<lparr>float64 = (\<lambda>n. n),
      time_Now_Unix = demo_clock,
      klog_Error = (\<lambda>e w. w @ [Logged e]),
      Selector_String = demo_String,
      ReplaceNamespaceFns = fns,
      MetricTypeVector = ''vector'',
      KubeSphereClusterCount = ''kubesphere_cluster_count'',
      KubeSphereWorkspaceCount = ''kubesphere_workspace_count'',
      KubeSphereUserCount = ''kubesphere_user_count'',
      WorkspaceNamespaceCount = ''workspace_namespace_count'',
      WorkspaceDevopsCount = ''workspace_devops_project_count'',
      WorkspaceMemberCount = ''workspace_member_count'',
      WorkspaceRoleCount = ''workspace_role_count'',
      WorkspaceLabelKey = ''kubesphere.io/workspace'',
      UserReferenceLabel = ''iam.kubesphere.io/user-ref''\<rparr>"

text \<open>Two rewrite functions: one that scopes the expression, one that rejects it.\<close>

definition rewrite_scoped :: ReplaceNamespaceFn where
  "rewrite_scoped expr ns = (ns @ '':'' @ expr, None)"

definition rewrite_failing :: ReplaceNamespaceFn where
  "rewrite_failing expr ns = ('''', Some (errors_New ''cannot parse expression''))"

definition unlabelled :: "string list \<Rightarrow> Object list" where
  "unlabelled names = map (\<lambda>n. \<lparr>Name = n, Labels = []\<rparr>) names"

text \<open>The cluster has no cluster object, three workspace templates and five users.\<close>

definition scenario_stores :: stores where
  "scenario_stores =
     \<lparr>clusters = ([], None),
      templates = (unlabelled [''t1'', ''t2'', ''t3''], None),
      users = (unlabelled [''u1'', ''u2'', ''u3'', ''u4'', ''u5''], None),
      namespaces = ([], None), devops = ([], None), bindings = ([], None), roles = ([], None)\<rparr>"

text \<open>
  The workspace \<open>demo\<close>: one namespace, a DevOps project list that fails, two role bindings
  of the same user \<open>alice\<close>, a binding without user reference, a binding of another
  workspace, and one role.
\<close>

definition in_workspace :: "string \<Rightarrow> string \<Rightarrow> (string \<times> string) list \<Rightarrow> Object" where
  "in_workspace ws name others =
     \<lparr>Name = name, Labels = (''kubesphere.io/workspace'', ws) # others\<rparr>"

definition workspace_stores :: stores where
  "workspace_stores =
     \<lparr>clusters = ([], None), templates = ([], Some (errors_New ''cache not synced'')),
      users = ([], None),
      namespaces = ([in_workspace ''demo'' ''ns1'' [], in_workspace ''other'' ''ns2'' []], None),
      devops = ([], Some (errors_New ''lister unavailable'')),
      bindings = ([in_workspace ''demo'' ''alice-admin'' [(''iam.kubesphere.io/user-ref'', ''alice'')],
                   in_workspace ''demo'' ''alice-viewer'' [(''iam.kubesphere.io/user-ref'', ''alice'')],
                   in_workspace ''demo'' ''group-binding'' [],
                   in_workspace ''other'' ''bob-admin'' [(''iam.kubesphere.io/user-ref'', ''bob'')]],
                  None),
      roles = ([in_workspace ''demo'' ''demo-admin'' []], None)\<rparr>"

text \<open>Three states of the registry: no entry, a scoping entry, a rejecting entry.\<close>

definition unregistered :: "string \<rightharpoonup> ReplaceNamespaceFn" where
  "unregistered = Map.empty"

definition registry_scoped :: "string \<rightharpoonup> ReplaceNamespaceFn" where
  "registry_scoped = [''prometheus'' \<mapsto> rewrite_scoped]"

definition registry_failing :: "string \<rightharpoonup> ReplaceNamespaceFn" where
  "registry_failing = [''prometheus'' \<mapsto> rewrite_failing]"

section \<open>Properties\<close>

subsection \<open>What the entity counts return\<close>

text \<open>
  Naming the outcome of every list operation, in the order the code runs them, gives the whole
  result of each operation: one element for each kind, determined by the outcome for that kind
  and by the clock as read in the initial world.
\<close>

lemma GetKubeSphereStats_Results:
  assumes "Clusters_List (ks mo) Everything w0 = ((clusterList, ce), w1)"
    and "WorkspaceTemplates_List (ks mo) Everything w1 = ((wkList, we), w2)"
    and "Users_List (ks mo) Everything w2 = ((usrList, ue), w3)"
  shows "GetKubeSphereStats g mo w0 =
    (\<lparr>Results =
       [entity_element g (KubeSphereClusterCount g) (time_Now_Unix g w0) ce
          (if length clusterList = 0 then 1 else int (length clusterList)),
        entity_element g (KubeSphereWorkspaceCount g) (time_Now_Unix g w0) we
          (int (length wkList)),
        entity_element g (KubeSphereUserCount g) (time_Now_Unix g w0) ue
          (int (length usrList))]\<rparr>,
     w3)"
  using assms
  by (simp add: Let_def GetKubeSphereStats_def entity_element_def error_element_def
      count_element_def split: option.splits)

lemma GetWorkspaceStats_Results:
  assumes "Namespaces_List (k8s mo)
             \<lparr>LabelSelector = Selector_String g (workspace_selector g workspace)\<rparr> w0
           = ((nsList, e1), w1)"
    and "DevOpsProjects_List (ks mo) (workspace_selector g workspace) w1 = ((devopsList, e2), w2)"
    and "WorkspaceRoleBindings_List (ks mo) (member_selector g workspace) w2
           = ((memberList, e3), w3)"
    and "WorkspaceRoles_List (ks mo) (workspace_selector g workspace) w3 = ((roleList, e4), w4)"
  shows "GetWorkspaceStats g mo workspace w0 =
    (\<lparr>Results =
       [entity_element g (WorkspaceNamespaceCount g) (time_Now_Unix g w0) e1
          (int (length nsList)),
        entity_element g (WorkspaceDevopsCount g) (time_Now_Unix g w0) e2
          (int (length devopsList)),
        entity_element g (WorkspaceMemberCount g) (time_Now_Unix g w0) e3
          (int (length memberList)),
        entity_element g (WorkspaceRoleCount g) (time_Now_Unix g w0) e4
          (int (length roleList))]\<rparr>,
     w4)"
  using assms
  by (simp add: Let_def GetWorkspaceStats_def entity_element_def error_element_def
      count_element_def workspace_selector_def member_selector_def DeepCopySelector_def
      split: option.splits)

lemma entity_element_timestamp:
  "\<forall>v \<in> set (MetricValues (MetricData (entity_element g name ts err n))).
     \<forall>p. Sample v = Some p \<longrightarrow> fst p = float64 g ts"
  by (simp add: entity_element_def error_element_def count_element_def split: option.splits)

text \<open>
  The outcomes of the list operations in the concrete world, over the stores of the workspace
  \<open>demo\<close> and in the order the two operations run them.
\<close>

lemmas demo_defs = demo_env_def demo_mo_def demo_list_def demo_list_opt_def demo_clock_def
  demo_prometheus_def demo_query_def scenario_stores_def workspace_stores_def unlabelled_def
  in_workspace_def unregistered_def registry_scoped_def registry_failing_def rewrite_scoped_def
  rewrite_failing_def workspace_selector_def member_selector_def

lemma demo_Clusters_List:
  "Clusters_List (ks (demo_mo workspace_stores)) Everything [] =
     (([], None), [Listed ''clusters''])"
  by (simp add: demo_defs)

lemma demo_WorkspaceTemplates_List:
  "WorkspaceTemplates_List (ks (demo_mo workspace_stores)) Everything [Listed ''clusters''] =
     (([], Some (errors_New ''cache not synced'')),
      [Listed ''clusters'', Listed ''workspacetemplates''])"
  by (simp add: demo_defs)

lemma demo_Users_List:
  "Users_List (ks (demo_mo workspace_stores)) Everything
     [Listed ''clusters'', Listed ''workspacetemplates''] =
     (([], None), [Listed ''clusters'', Listed ''workspacetemplates'', Listed ''users''])"
  by (simp add: demo_defs)

lemma demo_Namespaces_List:
  "Namespaces_List (k8s (demo_mo workspace_stores))
     \<lparr>LabelSelector = Selector_String (demo_env unregistered)
        (workspace_selector (demo_env unregistered) ''demo'')\<rparr> [] =
     (([in_workspace ''demo'' ''ns1'' []], None), [Listed ''namespaces''])"
  by (simp add: demo_defs)

lemma demo_DevOpsProjects_List:
  "DevOpsProjects_List (ks (demo_mo workspace_stores))
     (workspace_selector (demo_env unregistered) ''demo'') [Listed ''namespaces''] =
     (([], Some (errors_New ''lister unavailable'')),
      [Listed ''namespaces'', Listed ''devopsprojects''])"
  by (simp add: demo_defs)

lemma demo_WorkspaceRoleBindings_List:
  "WorkspaceRoleBindings_List (ks (demo_mo workspace_stores))
     (member_selector (demo_env unregistered) ''demo'')
     [Listed ''namespaces'', Listed ''devopsprojects''] =
     (([in_workspace ''demo'' ''alice-admin'' [(''iam.kubesphere.io/user-ref'', ''alice'')],
        in_workspace ''demo'' ''alice-viewer'' [(''iam.kubesphere.io/user-ref'', ''alice'')]],
       None),
      [Listed ''namespaces'', Listed ''devopsprojects'', Listed ''workspacerolebindings''])"
  by (simp add: demo_defs)

lemma demo_WorkspaceRoles_List:
  "WorkspaceRoles_List (ks (demo_mo workspace_stores))
     (workspace_selector (demo_env unregistered) ''demo'')
     [Listed ''namespaces'', Listed ''devopsprojects'', Listed ''workspacerolebindings''] =
     (([in_workspace ''demo'' ''demo-admin'' []], None),
      [Listed ''namespaces'', Listed ''devopsprojects'', Listed ''workspacerolebindings'',
       Listed ''workspaceroles''])"
  by (simp add: demo_defs)

subsection \<open>What the batched lookups return\<close>

lemma length_named_lookups: "length (fst (named_lookups q ms w)) = length ms"
  by (induction ms arbitrary: w) (simp_all add: Let_def case_prod_beta)

lemma named_lookups_pointwise:
  "list_all2 (\<lambda>m r. \<exists>w'. r = fst (q m w')) ms (fst (named_lookups q ms w))"
proof (induction ms arbitrary: w)
  case Nil
  show ?case by simp
next
  case (Cons m ms)
  obtain r w1 where q: "q m w = (r, w1)" by (cases "q m w")
  obtain rs w2 where rest: "named_lookups q ms w1 = (rs, w2)" by (cases "named_lookups q ms w1")
  have "\<exists>w'. r = fst (q m w')" using q by (metis fst_conv)
  moreover have "list_all2 (\<lambda>m r. \<exists>w'. r = fst (q m w')) ms rs"
    using Cons.IH [of w1] rest by simp
  ultimately show ?case using q rest by auto
qed

lemma named_lookups_names:
  assumes "\<forall>m w'. MetricName (fst (q m w')) = m"
  shows "map MetricName (fst (named_lookups q ms w)) = ms"
  using assms by (induction ms arbitrary: w) (simp_all add: Let_def case_prod_beta)

subsection \<open>The label-set lookup\<close>

text \<open>
  Claim C1. With a non-empty scope, when the rewrite function registered for the backend kind
  \<open>prometheus\<close> returns an error for the metric and the scope, \<open>GetMetricLabelSet\<close> returns
  the empty \<open>MetricLabelSet\<close> as an ordinary result. The world it leaves behind is the initial
  world with that error logged and nothing else done to it: the error does not reach the
  caller and the label-set lookup of the backend is not invoked.
\<close>

theorem GetMetricLabelSet_rewrite_error:
  assumes "namespace \<noteq> ''''"
    and "ReplaceNamespaceFns g ''prometheus'' = Some fn"
    and "fn metric namespace = (expr, Some err)"
  shows "GetMetricLabelSet g mo metric namespace start endt w =
           (Inr \<lparr>Data = []\<rparr>, klog_Error g err w)"
  using assms by (simp add: GetMetricLabelSet_def)

text \<open>
  In the concrete world: the rejecting rewrite function is registered, the result is the empty
  set, and the trace holds the logged error and no query.
\<close>

theorem GetMetricLabelSet_rewrite_error_witness:
  "''team-a'' \<noteq> ''''
   \<and> ReplaceNamespaceFns (demo_env registry_failing) ''prometheus'' = Some rewrite_failing
   \<and> rewrite_failing ''up'' ''team-a'' = ('''', Some (errors_New ''cannot parse expression''))
   \<and> GetMetricLabelSet (demo_env registry_failing) (demo_mo scenario_stores)
        ''up'' ''team-a'' 0 60 [] =
       (Inr \<lparr>Data = []\<rparr>, [Logged (errors_New ''cannot parse expression'')])"
proof -
  have h1: "''team-a'' \<noteq> ''''" by simp
  have h2: "ReplaceNamespaceFns (demo_env registry_failing) ''prometheus'' = Some rewrite_failing"
    by (simp add: demo_env_def registry_failing_def)
  have h3: "rewrite_failing ''up'' ''team-a'' =
      ('''', Some (errors_New ''cannot parse expression''))"
    by (simp add: rewrite_failing_def)
  show ?thesis
    using h1 h2 h3
      GetMetricLabelSet_rewrite_error [OF h1 h2 h3, of "demo_mo scenario_stores" 0 60 "[]"]
    by (simp add: demo_env_def)
qed

text \<open>
  Claim C2, as amended. With a non-empty scope, \<open>GetMetricLabelSet\<close> returns a value to its
  caller when a rewrite function is registered for the kind \<open>prometheus\<close>. When none is
  registered, the call of the nil function panics: no \<open>MetricLabelSet\<close> is returned, and
  the world is left as it was, so nothing is logged.
\<close>

theorem GetMetricLabelSet_unregistered:
  assumes "namespace \<noteq> ''''"
  shows "(ReplaceNamespaceFns g ''prometheus'' = None \<longrightarrow>
            GetMetricLabelSet g mo metric namespace start endt w = (Inl nil_func_call, w))
       \<and> (ReplaceNamespaceFns g ''prometheus'' \<noteq> None \<longrightarrow>
            (\<exists>v. fst (GetMetricLabelSet g mo metric namespace start endt w) = Inr v))"
  using assms
  by (auto simp add: GetMetricLabelSet_def Let_def split: option.splits prod.splits)

theorem GetMetricLabelSet_unregistered_witness:
  "''team-a'' \<noteq> ''''
   \<and> ReplaceNamespaceFns (demo_env unregistered) ''prometheus'' = None
   \<and> GetMetricLabelSet (demo_env unregistered) (demo_mo scenario_stores)
        ''up'' ''team-a'' 0 60 [Queried ''earlier''] = (Inl nil_func_call, [Queried ''earlier''])"
proof -
  have h1: "''team-a'' \<noteq> ''''" by simp
  have h2: "ReplaceNamespaceFns (demo_env unregistered) ''prometheus'' = None"
    by (simp add: demo_env_def unregistered_def)
  show ?thesis
    using h1 h2
      GetMetricLabelSet_unregistered [OF h1, of "demo_env unregistered"
        "demo_mo scenario_stores" "''up''" 0 60 "[Queried ''earlier'']"]
    by simp
qed

text \<open>
  Claim C2 as stated fails: for the metric \<open>up\<close> and the scope \<open>team-a\<close>, with no rewrite
  function registered, the call does not return the empty \<open>MetricLabelSet\<close>. It panics, and
  the trace stays empty: no error is logged.
\<close>

theorem GetMetricLabelSet_unregistered_panics:
  "GetMetricLabelSet (demo_env unregistered) (demo_mo scenario_stores) ''up'' ''team-a'' 0 60 []
     = (Inl nil_func_call, [])
   \<and> fst (GetMetricLabelSet (demo_env unregistered) (demo_mo scenario_stores)
        ''up'' ''team-a'' 0 60 []) \<noteq> Inr \<lparr>Data = []\<rparr>"
  by (simp add: GetMetricLabelSet_def demo_env_def unregistered_def)

text \<open>
  Claim C7. With the empty scope, \<open>GetMetricLabelSet\<close> hands the metric expression to the
  label-set lookup of the backend as it is and wraps what comes back. The result is an
  ordinary one, the world is the one the backend leaves, with nothing logged, and the registry
  has no part in it: replacing the registry by any other changes nothing.
\<close>

theorem GetMetricLabelSet_empty_scope:
  "GetMetricLabelSet g mo metric '''' start endt w =
     (Inr \<lparr>Data = fst (Interface.GetMetricLabelSet (prometheus mo) metric start endt w)\<rparr>,
      snd (Interface.GetMetricLabelSet (prometheus mo) metric start endt w))
   \<and> GetMetricLabelSet (g\<lparr>ReplaceNamespaceFns := fns\<rparr>) mo metric '''' start endt w =
       GetMetricLabelSet g mo metric '''' start endt w"
  by (simp add: GetMetricLabelSet_def split: prod.splits)

subsection \<open>The single queries\<close>

text \<open>
  Claim C6. \<open>GetMetric\<close> gives the same outcome for any two scopes: it is the instant
  query of the backend on the expression and the time, and nothing else. The same holds for
  \<open>GetMetricOverTime\<close> and the range query.
\<close>

theorem GetMetric_scope_unused:
  "GetMetric mo expr s1 time w = GetMetric mo expr s2 time w
   \<and> GetMetric mo expr s1 time w =
       ((fst (Interface.GetMetric (prometheus mo) expr time w), None),
        snd (Interface.GetMetric (prometheus mo) expr time w))
   \<and> GetMetricOverTime mo expr s1 start endt step w =
       GetMetricOverTime mo expr s2 start endt step w
   \<and> GetMetricOverTime mo expr s1 start endt step w =
       ((fst (Interface.GetMetricOverTime (prometheus mo) expr start endt step w), None),
        snd (Interface.GetMetricOverTime (prometheus mo) expr start endt step w))"
  by (simp add: GetMetric_def GetMetricOverTime_def split: prod.splits)

text \<open>
  Claim C9. The error component of \<open>GetMetric\<close> and of \<open>GetMetricOverTime\<close> is nil on
  every input: a failure can only be carried inside the returned metric.
\<close>

theorem GetMetric_error_nil:
  "snd (fst (GetMetric mo expr namespace time w)) = None
   \<and> snd (fst (GetMetricOverTime mo expr namespace start endt step w)) = None"
  by (simp add: GetMetric_def GetMetricOverTime_def split: prod.splits)

subsection \<open>The named queries\<close>

text \<open>
  Claim C5. \<open>GetNamedMetrics\<close> and \<open>GetNamedMetricsOverTime\<close> return the sequence of the
  backend unchanged. With a backend that answers a batch as the specification describes it
  (\<open>named_lookups\<close>), the results are as many as the names, the element at each position is
  the answer of the lookup of the name at that position, whatever errors this or any other
  answer carries, and where every answer bears the name it was asked for, the names of the
  results are the names of the request in their order.
\<close>

theorem named_metrics_length_and_order:
  assumes "Interface.GetNamedMetrics (prometheus mo) =
             (\<lambda>ms t opt. named_lookups (q t opt) ms)"
    and "Interface.GetNamedMetricsOverTime (prometheus mo) =
             (\<lambda>ms s e st opt. named_lookups (q' s e st opt) ms)"
  shows "Results (fst (GetNamedMetrics mo metrics time opt w)) =
           fst (Interface.GetNamedMetrics (prometheus mo) metrics time opt w)
       \<and> length (Results (fst (GetNamedMetrics mo metrics time opt w))) = length metrics
       \<and> list_all2 (\<lambda>m r. \<exists>w'. r = fst (q time opt m w')) metrics
           (Results (fst (GetNamedMetrics mo metrics time opt w)))
       \<and> ((\<forall>m w'. MetricName (fst (q time opt m w')) = m) \<longrightarrow>
            map MetricName (Results (fst (GetNamedMetrics mo metrics time opt w))) = metrics)
       \<and> Results (fst (GetNamedMetricsOverTime mo metrics start endt step opt w)) =
           fst (Interface.GetNamedMetricsOverTime (prometheus mo) metrics start endt step opt w)
       \<and> length (Results (fst (GetNamedMetricsOverTime mo metrics start endt step opt w)))
           = length metrics
       \<and> list_all2 (\<lambda>m r. \<exists>w'. r = fst (q' start endt step opt m w')) metrics
           (Results (fst (GetNamedMetricsOverTime mo metrics start endt step opt w)))
       \<and> ((\<forall>m w'. MetricName (fst (q' start endt step opt m w')) = m) \<longrightarrow>
            map MetricName (Results (fst (GetNamedMetricsOverTime mo metrics start endt step opt w)))
              = metrics)"
proof -
  have i: "Results (fst (GetNamedMetrics mo metrics time opt w)) =
             fst (Interface.GetNamedMetrics (prometheus mo) metrics time opt w)"
    by (simp add: GetNamedMetrics_def split: prod.splits)
  have r: "Results (fst (GetNamedMetricsOverTime mo metrics start endt step opt w)) =
             fst (Interface.GetNamedMetricsOverTime (prometheus mo) metrics start endt step opt w)"
    by (simp add: GetNamedMetricsOverTime_def split: prod.splits)
  show ?thesis
    unfolding i r assms
    by (simp add: length_named_lookups named_lookups_pointwise named_lookups_names)
qed

text \<open>
  In the concrete world the second of three names is unknown to the backend: the response
  still has three elements, named as the request.
\<close>

theorem named_metrics_length_and_order_witness:
  "length (Results (fst (GetNamedMetrics (demo_mo scenario_stores) [''a'', ''bad'', ''c''] 0 () [])))
     = 3
   \<and> map MetricName
       (Results (fst (GetNamedMetrics (demo_mo scenario_stores) [''a'', ''bad'', ''c''] 0 () [])))
     = [''a'', ''bad'', ''c'']
   \<and> map Error
       (Results (fst (GetNamedMetrics (demo_mo scenario_stores) [''a'', ''bad'', ''c''] 0 () [])))
     = ['''', ''unknown metric'', '''']
   \<and> map MetricName
       (Results (fst (GetNamedMetricsOverTime (demo_mo scenario_stores) [''a'', ''bad'', ''c'']
          0 60 15 () [])))
     = [''a'', ''bad'', ''c'']"
proof -
  have h1: "Interface.GetNamedMetrics (prometheus (demo_mo scenario_stores)) =
      (\<lambda>ms t opt. named_lookups ((\<lambda>t opt. demo_query) t opt) ms)"
    by (simp add: demo_mo_def demo_prometheus_def)
  have h2: "Interface.GetNamedMetricsOverTime (prometheus (demo_mo scenario_stores)) =
      (\<lambda>ms s e st opt. named_lookups ((\<lambda>s e st opt. demo_query) s e st opt) ms)"
    by (simp add: demo_mo_def demo_prometheus_def)
  have h3: "\<forall>m w'. MetricName (fst (demo_query m w')) = m"
    by (simp add: demo_query_def)
  show ?thesis
    using h3
      named_metrics_length_and_order [OF h1 h2, of "[''a'', ''bad'', ''c'']" 0 "()" "[]" 0 60 15]
    by (simp add: demo_mo_def demo_prometheus_def demo_query_def Let_def)
qed

subsection \<open>The entity counts\<close>

text \<open>
  Claim C3. Whatever the cluster lister answers, every count the cluster element of
  \<open>GetKubeSphereStats\<close> carries is the conversion of an integer that is at least 1. When
  the cluster list succeeds, the element is a count element, of 1 when the list is empty and of
  the length of the list otherwise. When the three lists succeed with 0, 3 and 5 items, the
  result is the count of 1 cluster, of 3 workspace templates and of 5 users, in this order.
\<close>

theorem cluster_count_at_least_one:
  assumes "Clusters_List (ks mo) Everything w0 = ((clusterList, ce), w1)"
  shows "(\<forall>v \<in> set (MetricValues (MetricData (Results (fst (GetKubeSphereStats g mo w0)) ! 0))).
            \<exists>n\<ge>1. Sample v = Some (float64 g (time_Now_Unix g w0), float64 g n))
       \<and> (ce = None \<longrightarrow>
            Results (fst (GetKubeSphereStats g mo w0)) ! 0 =
              count_element g (KubeSphereClusterCount g) (time_Now_Unix g w0)
                (if length clusterList = 0 then 1 else int (length clusterList)))
       \<and> (ce = None \<and> length clusterList = 0
            \<and> WorkspaceTemplates_List (ks mo) Everything w1 = ((wkList, None), w2)
            \<and> length wkList = 3
            \<and> Users_List (ks mo) Everything w2 = ((usrList, None), w3)
            \<and> length usrList = 5 \<longrightarrow>
            Results (fst (GetKubeSphereStats g mo w0)) =
              [count_element g (KubeSphereClusterCount g) (time_Now_Unix g w0) 1,
               count_element g (KubeSphereWorkspaceCount g) (time_Now_Unix g w0) 3,
               count_element g (KubeSphereUserCount g) (time_Now_Unix g w0) 5])"
proof -
  obtain wl we v2 where t: "WorkspaceTemplates_List (ks mo) Everything w1 = ((wl, we), v2)"
    by (metis prod.exhaust)
  obtain ul ue v3 where u: "Users_List (ks mo) Everything v2 = ((ul, ue), v3)"
    by (metis prod.exhaust)
  note r = GetKubeSphereStats_Results [OF assms t u, of g]
  have a: "\<forall>v \<in> set (MetricValues (MetricData (Results (fst (GetKubeSphereStats g mo w0)) ! 0))).
            \<exists>n\<ge>1. Sample v = Some (float64 g (time_Now_Unix g w0), float64 g n)"
  proof (cases ce)
    case None
    define n where "n = (if length clusterList = 0 then 1 else int (length clusterList))"
    have "1 \<le> n" by (cases clusterList) (simp_all add: n_def)
    moreover have "MetricValues (MetricData (Results (fst (GetKubeSphereStats g mo w0)) ! 0)) =
        [\<lparr>Sample = Some (float64 g (time_Now_Unix g w0), float64 g n)\<rparr>]"
      unfolding r using None by (simp add: entity_element_def count_element_def n_def)
    ultimately show ?thesis by auto
  next
    case (Some e)
    then show ?thesis
      unfolding r by (simp add: entity_element_def error_element_def)
  qed
  have b: "ce = None \<longrightarrow>
            Results (fst (GetKubeSphereStats g mo w0)) ! 0 =
              count_element g (KubeSphereClusterCount g) (time_Now_Unix g w0)
                (if length clusterList = 0 then 1 else int (length clusterList))"
    unfolding r by (simp add: entity_element_def)
  have c: "ce = None \<and> length clusterList = 0
            \<and> WorkspaceTemplates_List (ks mo) Everything w1 = ((wkList, None), w2)
            \<and> length wkList = 3
            \<and> Users_List (ks mo) Everything w2 = ((usrList, None), w3)
            \<and> length usrList = 5 \<longrightarrow>
            Results (fst (GetKubeSphereStats g mo w0)) =
              [count_element g (KubeSphereClusterCount g) (time_Now_Unix g w0) 1,
               count_element g (KubeSphereWorkspaceCount g) (time_Now_Unix g w0) 3,
               count_element g (KubeSphereUserCount g) (time_Now_Unix g w0) 5]"
    unfolding r using t u by (auto simp add: entity_element_def)
  from a b c show ?thesis by blast
qed

text \<open>The scenario in the concrete world: no cluster object, three templates, five users.\<close>

theorem cluster_count_scenario:
  "Clusters_List (ks (demo_mo scenario_stores)) Everything [] = (([], None), [Listed ''clusters''])
   \<and> Results (fst (GetKubeSphereStats (demo_env unregistered) (demo_mo scenario_stores) [])) =
       [count_element (demo_env unregistered) ''kubesphere_cluster_count'' 1700000000 1,
        count_element (demo_env unregistered) ''kubesphere_workspace_count'' 1700000000 3,
        count_element (demo_env unregistered) ''kubesphere_user_count'' 1700000000 5]"
proof -
  have h: "Clusters_List (ks (demo_mo scenario_stores)) Everything [] =
      (([], None), [Listed ''clusters''])"
    by (simp add: demo_mo_def demo_list_def scenario_stores_def)
  show ?thesis
    using h cluster_count_at_least_one [OF h, where g = "demo_env unregistered"
        and wkList = "unlabelled [''t1'', ''t2'', ''t3'']"
        and ?w2.0 = "[Listed ''clusters'', Listed ''workspacetemplates'']"
        and usrList = "unlabelled [''u1'', ''u2'', ''u3'', ''u4'', ''u5'']"
        and ?w3.0 = "[Listed ''clusters'', Listed ''workspacetemplates'', Listed ''users'']"]
    by (simp add: demo_mo_def demo_list_def scenario_stores_def unlabelled_def demo_env_def
        demo_clock_def)
qed

text \<open>
  Claim C4. Whatever each list operation answers, \<open>GetKubeSphereStats\<close> returns exactly
  three elements, for clusters, workspace templates and users in this order, and
  \<open>GetWorkspaceStats\<close> exactly four, for namespaces, DevOps projects, members and roles in this
  order. The element of a kind is an error element exactly when the list operation of that kind
  returned an error, and it is the count element of that kind otherwise: the outcome of one
  kind has no part in the element of another.
\<close>

theorem stats_one_element_per_kind:
  assumes "Clusters_List (ks mo) Everything w0 = ((clusterList, ce), w1)"
    and "WorkspaceTemplates_List (ks mo) Everything w1 = ((wkList, we), w2)"
    and "Users_List (ks mo) Everything w2 = ((usrList, ue), w3)"
    and "Namespaces_List (k8s mo)
           \<lparr>LabelSelector = Selector_String g (workspace_selector g workspace)\<rparr> v0
         = ((nsList, e1), v1)"
    and "DevOpsProjects_List (ks mo) (workspace_selector g workspace) v1 = ((devopsList, e2), v2)"
    and "WorkspaceRoleBindings_List (ks mo) (member_selector g workspace) v2
         = ((memberList, e3), v3)"
    and "WorkspaceRoles_List (ks mo) (workspace_selector g workspace) v3 = ((roleList, e4), v4)"
  shows "Results (fst (GetKubeSphereStats g mo w0)) =
           [entity_element g (KubeSphereClusterCount g) (time_Now_Unix g w0) ce
              (if length clusterList = 0 then 1 else int (length clusterList)),
            entity_element g (KubeSphereWorkspaceCount g) (time_Now_Unix g w0) we
              (int (length wkList)),
            entity_element g (KubeSphereUserCount g) (time_Now_Unix g w0) ue
              (int (length usrList))]
       \<and> Results (fst (GetWorkspaceStats g mo workspace v0)) =
           [entity_element g (WorkspaceNamespaceCount g) (time_Now_Unix g v0) e1
              (int (length nsList)),
            entity_element g (WorkspaceDevopsCount g) (time_Now_Unix g v0) e2
              (int (length devopsList)),
            entity_element g (WorkspaceMemberCount g) (time_Now_Unix g v0) e3
              (int (length memberList)),
            entity_element g (WorkspaceRoleCount g) (time_Now_Unix g v0) e4
              (int (length roleList))]"
  using GetKubeSphereStats_Results [OF assms(1-3), of g]
    GetWorkspaceStats_Results [OF assms(4-7)]
  by simp

text \<open>
  In the concrete world the list of workspace templates and the list of DevOps projects fail:
  their elements carry the messages, and every other kind has its count.
\<close>

theorem stats_one_element_per_kind_witness:
  "Results (fst (GetKubeSphereStats (demo_env unregistered) (demo_mo workspace_stores) [])) =
     [count_element (demo_env unregistered) ''kubesphere_cluster_count'' 1700000000 1,
      error_element ''kubesphere_workspace_count'' (errors_New ''cache not synced''),
      count_element (demo_env unregistered) ''kubesphere_user_count'' 1700000000 0]
   \<and> Results (fst (GetWorkspaceStats (demo_env unregistered) (demo_mo workspace_stores)
        ''demo'' [])) =
     [count_element (demo_env unregistered) ''workspace_namespace_count'' 1700000000 1,
      error_element ''workspace_devops_project_count'' (errors_New ''lister unavailable''),
      count_element (demo_env unregistered) ''workspace_member_count'' 1700000000 2,
      count_element (demo_env unregistered) ''workspace_role_count'' 1700000000 1]"
  using stats_one_element_per_kind [OF demo_Clusters_List demo_WorkspaceTemplates_List
      demo_Users_List demo_Namespaces_List demo_DevOpsProjects_List
      demo_WorkspaceRoleBindings_List demo_WorkspaceRoles_List]
  by (simp add: entity_element_def demo_env_def demo_clock_def)

text \<open>
  Claim C8, as amended. Each count of \<open>GetWorkspaceStats\<close> whose list operation succeeds is
  the length of the list that operation returned. The member count is the number of role
  bindings returned for the workspace label-equality selector extended by the requirement that
  the user-reference label exists: it counts bindings, not distinct members. The namespace,
  DevOps-project and role counts are the lengths of the lists returned for the workspace
  label-equality selector alone, which the namespace list receives in its string form.
\<close>

theorem workspace_counts_are_list_lengths:
  assumes "Namespaces_List (k8s mo)
             \<lparr>LabelSelector = Selector_String g (workspace_selector g workspace)\<rparr> w0
           = ((nsList, e1), w1)"
    and "DevOpsProjects_List (ks mo) (workspace_selector g workspace) w1 = ((devopsList, e2), w2)"
    and "WorkspaceRoleBindings_List (ks mo) (member_selector g workspace) w2
           = ((memberList, e3), w3)"
    and "WorkspaceRoles_List (ks mo) (workspace_selector g workspace) w3 = ((roleList, e4), w4)"
  shows "(e1 = None \<longrightarrow> Results (fst (GetWorkspaceStats g mo workspace w0)) ! 0 =
            count_element g (WorkspaceNamespaceCount g) (time_Now_Unix g w0) (int (length nsList)))
       \<and> (e2 = None \<longrightarrow> Results (fst (GetWorkspaceStats g mo workspace w0)) ! 1 =
            count_element g (WorkspaceDevopsCount g) (time_Now_Unix g w0) (int (length devopsList)))
       \<and> (e3 = None \<longrightarrow> Results (fst (GetWorkspaceStats g mo workspace w0)) ! 2 =
            count_element g (WorkspaceMemberCount g) (time_Now_Unix g w0) (int (length memberList)))
       \<and> (e4 = None \<longrightarrow> Results (fst (GetWorkspaceStats g mo workspace w0)) ! 3 =
            count_element g (WorkspaceRoleCount g) (time_Now_Unix g w0) (int (length roleList)))"
  unfolding GetWorkspaceStats_Results [OF assms]
  by (simp add: entity_element_def)

theorem workspace_counts_are_list_lengths_witness:
  "Results (fst (GetWorkspaceStats (demo_env unregistered) (demo_mo workspace_stores)
        ''demo'' [])) ! 0 =
     count_element (demo_env unregistered) ''workspace_namespace_count'' 1700000000 1
   \<and> Results (fst (GetWorkspaceStats (demo_env unregistered) (demo_mo workspace_stores)
        ''demo'' [])) ! 2 =
     count_element (demo_env unregistered) ''workspace_member_count'' 1700000000 2
   \<and> Results (fst (GetWorkspaceStats (demo_env unregistered) (demo_mo workspace_stores)
        ''demo'' [])) ! 3 =
     count_element (demo_env unregistered) ''workspace_role_count'' 1700000000 1"
  using workspace_counts_are_list_lengths [OF demo_Namespaces_List demo_DevOpsProjects_List
      demo_WorkspaceRoleBindings_List demo_WorkspaceRoles_List]
  by (simp add: demo_env_def demo_clock_def)

text \<open>
  Claim C8 as stated fails: in the workspace \<open>demo\<close> the user \<open>alice\<close> holds two role
  bindings. The selected bindings have one distinct member, and the member count reported is 2.
\<close>

theorem member_count_counts_bindings:
  "MetricValues (MetricData (Results (fst (GetWorkspaceStats (demo_env unregistered)
       (demo_mo workspace_stores) ''demo'' [])) ! 2)) = [\<lparr>Sample = Some (1700000000, 2)\<rparr>]
   \<and> spec_distinct_members (UserReferenceLabel (demo_env unregistered))
       (fst (fst (WorkspaceRoleBindings_List (ks (demo_mo workspace_stores))
          (member_selector (demo_env unregistered) ''demo'')
          [Listed ''namespaces'', Listed ''devopsprojects'']))) = 1"
  by (simp add: GetWorkspaceStats_def Let_def DeepCopySelector_def spec_distinct_members_def
      demo_defs)

text \<open>
  Claim C10. In one call of \<open>GetKubeSphereStats\<close> or of \<open>GetWorkspaceStats\<close>, every sample of
  every element carries the same timestamp: the conversion of the clock as read in the world
  in which the call starts, before any list operation has run.
\<close>

theorem stats_single_timestamp:
  "(\<forall>m \<in> set (Results (fst (GetKubeSphereStats g mo w0))).
      \<forall>v \<in> set (MetricValues (MetricData m)).
        \<forall>p. Sample v = Some p \<longrightarrow> fst p = float64 g (time_Now_Unix g w0))
   \<and> (\<forall>m \<in> set (Results (fst (GetWorkspaceStats g mo workspace w0))).
        \<forall>v \<in> set (MetricValues (MetricData m)).
          \<forall>p. Sample v = Some p \<longrightarrow> fst p = float64 g (time_Now_Unix g w0))"
proof -
  obtain cl ce w1 where c: "Clusters_List (ks mo) Everything w0 = ((cl, ce), w1)"
    by (metis prod.exhaust)
  obtain wl we w2 where t: "WorkspaceTemplates_List (ks mo) Everything w1 = ((wl, we), w2)"
    by (metis prod.exhaust)
  obtain ul ue w3 where u: "Users_List (ks mo) Everything w2 = ((ul, ue), w3)"
    by (metis prod.exhaust)
  obtain nl e1 v1 where n: "Namespaces_List (k8s mo)
      \<lparr>LabelSelector = Selector_String g (workspace_selector g workspace)\<rparr> w0 = ((nl, e1), v1)"
    by (metis prod.exhaust)
  obtain dl e2 v2 where d:
    "DevOpsProjects_List (ks mo) (workspace_selector g workspace) v1 = ((dl, e2), v2)"
    by (metis prod.exhaust)
  obtain ml e3 v3 where m:
    "WorkspaceRoleBindings_List (ks mo) (member_selector g workspace) v2 = ((ml, e3), v3)"
    by (metis prod.exhaust)
  obtain rl e4 v4 where r:
    "WorkspaceRoles_List (ks mo) (workspace_selector g workspace) v3 = ((rl, e4), v4)"
    by (metis prod.exhaust)
  show ?thesis
    unfolding GetKubeSphereStats_Results [OF c t u] GetWorkspaceStats_Results [OF n d m r]
    using entity_element_timestamp [of g] by simp
qed

text \<open>
  In the concrete world the clock advances with every list operation, by three and by four
  seconds over the two calls, and the last element still carries the time of the start.
\<close>

theorem stats_single_timestamp_witness:
  "fst (the (Sample (hd (MetricValues (MetricData (Results (fst (GetKubeSphereStats
       (demo_env unregistered) (demo_mo workspace_stores) [])) ! 2)))))) = 1700000000
   \<and> time_Now_Unix (demo_env unregistered)
       (snd (GetKubeSphereStats (demo_env unregistered) (demo_mo workspace_stores) []))
     = 1700000003
   \<and> fst (the (Sample (hd (MetricValues (MetricData (Results (fst (GetWorkspaceStats
       (demo_env unregistered) (demo_mo workspace_stores) ''demo'' [])) ! 3)))))) = 1700000000
   \<and> time_Now_Unix (demo_env unregistered)
       (snd (GetWorkspaceStats (demo_env unregistered) (demo_mo workspace_stores) ''demo'' []))
     = 1700000004"
proof -
  let ?g = "demo_env unregistered"
  note k = GetKubeSphereStats_Results [OF demo_Clusters_List demo_WorkspaceTemplates_List
      demo_Users_List, of ?g]
  note w = GetWorkspaceStats_Results [OF demo_Namespaces_List demo_DevOpsProjects_List
      demo_WorkspaceRoleBindings_List demo_WorkspaceRoles_List]
  show ?thesis
    using stats_single_timestamp [of ?g "demo_mo workspace_stores" "[]" "''demo''"]
    unfolding k w
    by (simp add: entity_element_def count_element_def error_element_def demo_env_def
        demo_clock_def)
qed

end
